theory Spec2Isabelle
  imports
    Complex_Main
    "HOL-Library.Multiset"
    "HOL-Library.Char_ord"
    "HOL-Library.List_Lexorder"
begin

section \<open>The sales dashboard of \<open>app.py\<close>: data model\<close>

text \<open>
  \<open>app.py\<close> is a Streamlit script: it is run top to bottom on every interaction. The
  model follows its computation (lines 28--39, 56--88, 103 and 165--174) and the one
  rendering call that raises (line 158). The other calls that only render (\<open>st.metric\<close>,
  \<open>st.plotly_chart\<close>, the plotly figures) are the presentation layer and are not
  modelled, apart from the messages \<open>st.error\<close> and \<open>st.warning\<close> emit.

  Amounts are exact rationals, and their sums are exact. The script computes in
  \<open>int64\<close> (columns of integer cells) or in \<open>float64\<close> (columns with a fraction or a
  blank): its sums agree with the exact ones as long as the amounts are integers and
  the sums of their magnitudes stay below \<open>2^53\<close>; beyond that they wrap or round,
  and the exact sums of the model stand for them. The statements below are about which
  rows and which amounts make up a result and about the exceptions a run ends in; none
  of them is about that rounding. A blank \<open>Customer\<close> cell is read as NaN and is
  \<open>None\<close> here; the amount cells are taken to hold numbers.

  The synthetic monthly series (lines 64--67, 75--83 and 116--118) is built from numpy's
  pseudo-random floats and is not part of the model.
\<close>

type_synonym amount = rat

text \<open>A row of the sheet \<open>Source_Turnover\<close> (columns \<open>Customer\<close>, \<open>Turnover\<close>, \<open>Margin\<close>).\<close>

record TurnoverRecord =
  Customer :: "string option"
  Turnover :: amount
  Margin :: amount

text \<open>A row of the sheet \<open>Source_Portfolio\<close> (columns \<open>Customer\<close>, \<open>Net amount\<close>).\<close>

record PortfolioRecord =
  Customer_p :: "string option"
  Net_amount :: amount

text \<open>
  A row of \<open>merged\<close> after line 173 (columns \<open>Customer\<close>, \<open>Turnover\<close>, \<open>Margin\<close>,
  \<open>Portfolio\<close>, \<open>Totale\<close>).
\<close>

record CustomerRollup =
  Customer_m :: string
  Turnover_m :: amount
  Margin_m :: amount
  Portfolio :: amount
  Totale :: amount

text \<open>
  A DataFrame as \<open>pd.read_excel\<close> returns it: the names in the header row of the sheet
  (\<open>read_excel\<close> makes them distinct) and the rows below it. A row has a field for each
  expected column; the field of a column that the sheet lacks is never read.
\<close>

record 'r dataframe =
  columns :: "string list"
  rows :: "'r list"

text \<open>
  The scalars of the script are Python \<open>int\<close>s in demo mode (lines 61--62, and
  \<open>budget_annuale\<close>, which \<open>st.number_input\<close> returns as an \<open>int\<close> since its bounds,
  value and step are) and numpy scalars in real-data mode (the result of
  \<open>Series.sum()\<close>). The two differ in what division by zero does.
\<close>

datatype scalar = PyInt int | NpScalar amount

fun val :: "scalar \<Rightarrow> amount" where
  "val (PyInt i) = of_int i"
| "val (NpScalar x) = x"

text \<open>Python's \<open>+\<close> and \<open>-\<close>: \<open>int\<close> with \<open>int\<close> stays an \<open>int\<close>, anything with a numpy scalar is one.\<close>

fun add_scalar :: "scalar \<Rightarrow> scalar \<Rightarrow> scalar" where
  "add_scalar (PyInt a) (PyInt b) = PyInt (a + b)"
| "add_scalar a b = NpScalar (val a + val b)"

fun sub_scalar :: "scalar \<Rightarrow> scalar \<Rightarrow> scalar" where
  "sub_scalar (PyInt a) (PyInt b) = PyInt (a - b)"
| "sub_scalar a b = NpScalar (val a - val b)"

text \<open>A float result: a number, or what numpy's division by zero yields.\<close>

datatype fvalue = Finite amount | PosInf | NegInf | NaN

datatype py_error = ZeroDivisionError | TypeError | AttributeError | KeyError | ValueError

text \<open>
  \<open>a / b\<close> with \<open>b\<close> a Python \<open>int\<close>. Between two Python \<open>int\<close>s a zero divisor raises
  \<open>ZeroDivisionError\<close>; a numpy scalar divided by zero only warns and yields
  \<open>inf\<close>, \<open>-inf\<close> or \<open>nan\<close>.
\<close>

fun truediv :: "scalar \<Rightarrow> int \<Rightarrow> py_error + fvalue" where
  "truediv (PyInt a) b =
     (if b = 0 then Inl ZeroDivisionError else Inr (Finite (of_int a / of_int b)))"
| "truediv (NpScalar x) b =
     (if b \<noteq> 0 then Inr (Finite (x / of_int b))
      else if 0 < x then Inr PosInf
      else if x < 0 then Inr NegInf
      else Inr NaN)"

text \<open>\<open>(q - 1) * 100\<close> on a float.\<close>

fun minus1_times100 :: "fvalue \<Rightarrow> fvalue" where
  "minus1_times100 (Finite q) = Finite ((q - 1) * 100)"
| "minus1_times100 PosInf = PosInf"
| "minus1_times100 NegInf = NegInf"
| "minus1_times100 NaN = NaN"

section \<open>Ingestion: \<open>load_data\<close> (lines 28--39)\<close>

datatype ui_message = Error string | Warning string

text \<open>
  \<open>pd.read_excel(uploaded_file, sheet_name=...)\<close> is the library's: the model takes its
  outcome on each of the two sheets as a parameter, \<open>Inr\<close> the parsed sheet and \<open>Inl e\<close>
  an exception whose text is \<open>e\<close>. A sheet is parsed whatever its header is: only the
  lines that use a column look for it. The result is the pair the function returns,
  with the messages it emits.
\<close>

definition error_text :: "string \<Rightarrow> string" where
  "error_text e =
     ''Errore nella lettura del file: '' @ e @ ''. Assicurati di usare il file Excel corretto.''"

definition load_data ::
  "('f \<Rightarrow> string + TurnoverRecord dataframe) \<Rightarrow>
   ('f \<Rightarrow> string + PortfolioRecord dataframe) \<Rightarrow>
   'f option \<Rightarrow>
   (TurnoverRecord dataframe option \<times> PortfolioRecord dataframe option) \<times> ui_message list" where
  "load_data read_turnover read_portfolio uploaded_file =
     (case uploaded_file of
        None \<Rightarrow> ((None, None), [])
      | Some f \<Rightarrow>
          (case read_turnover f of
             Inl e \<Rightarrow> ((None, None), [Error (error_text e)])
           | Inr df_turnover \<Rightarrow>
               (case read_portfolio f of
                  Inl e \<Rightarrow> ((None, None), [Error (error_text e)])
                | Inr df_portfolio \<Rightarrow> ((Some df_turnover, Some df_portfolio), []))))"

section \<open>KPI computation (lines 58--88, 103)\<close>

record kpis =
  turnover_val :: scalar
  portfolio_val :: scalar
  total_forecast :: scalar
  budget_mensile :: amount
  delta_budget :: scalar

text \<open>\<open>df[name]\<close>: the column, or \<open>KeyError\<close> when the header has no such name.\<close>

definition getitem :: "'r dataframe \<Rightarrow> string \<Rightarrow> ('r \<Rightarrow> 'a) \<Rightarrow> py_error + 'a list" where
  "getitem df name field =
     (if name \<in> set (columns df) then Inr (map field (rows df)) else Inl KeyError)"

text \<open>
  \<open>Series.sum()\<close>: a numpy scalar, the sum of the cells. The columns of a sheet with no
  row below its header have dtype \<open>object\<close>, and their sum is the Python \<open>int\<close> \<open>0\<close>.
\<close>

definition series_sum :: "amount list \<Rightarrow> scalar" where
  "series_sum xs = (if xs = [] then PyInt 0 else NpScalar (sum_list xs))"

text \<open>
  Lines 58--71: the demo scalars when \<open>df_turnover\<close> is \<open>None\<close>, the column sums
  otherwise, line 70 before line 71. Subscripting \<open>df_portfolio\<close> when it is \<open>None\<close>
  raises \<open>TypeError\<close>.
\<close>

definition kpi_vals ::
  "TurnoverRecord dataframe option \<Rightarrow> PortfolioRecord dataframe option \<Rightarrow>
   py_error + scalar \<times> scalar" where
  "kpi_vals df_turnover df_portfolio =
     (case df_turnover of
        None \<Rightarrow> Inr (PyInt 1530000, PyInt 450000)
      | Some t \<Rightarrow>
          (case getitem t ''Turnover'' Turnover of
             Inl e \<Rightarrow> Inl e
           | Inr turnover_col \<Rightarrow>
               (case df_portfolio of
                  None \<Rightarrow> Inl TypeError
                | Some p \<Rightarrow>
                    (case getitem p ''Net amount'' Net_amount of
                       Inl e \<Rightarrow> Inl e
                     | Inr net_amount_col \<Rightarrow>
                         Inr (series_sum turnover_col, series_sum net_amount_col)))))"

text \<open>Lines 86--88.\<close>

definition kpi_calc :: "scalar \<Rightarrow> scalar \<Rightarrow> int \<Rightarrow> kpis" where
  "kpi_calc tv pv budget_annuale =
     (let forecast = add_scalar tv pv in
      \<lparr> turnover_val = tv,
        portfolio_val = pv,
        total_forecast = forecast,
        budget_mensile = of_int budget_annuale / 12,
        delta_budget = sub_scalar forecast (PyInt budget_annuale) \<rparr>)"

definition compute_kpis ::
  "TurnoverRecord dataframe option \<Rightarrow> PortfolioRecord dataframe option \<Rightarrow> int \<Rightarrow>
   py_error + kpis" where
  "compute_kpis df_turnover df_portfolio budget_annuale =
     (case kpi_vals df_turnover df_portfolio of
        Inl e \<Rightarrow> Inl e
      | Inr (tv, pv) \<Rightarrow> Inr (kpi_calc tv pv budget_annuale))"

text \<open>Line 103: \<open>((total_forecast / budget_annuale) - 1) * 100\<close>.\<close>

definition forecast_vs_budget :: "scalar \<Rightarrow> int \<Rightarrow> py_error + fvalue" where
  "forecast_vs_budget forecast budget_annuale =
     (case truediv forecast budget_annuale of
        Inl e \<Rightarrow> Inl e
      | Inr q \<Rightarrow> Inr (minus1_times100 q))"

section \<open>Customer rollup (lines 165--174)\<close>

text \<open>
  \<open>groupby('Customer')\<close> with its defaults (\<open>sort=True\<close>, \<open>dropna=True\<close>): one group for
  each distinct key, in ascending order of the keys; rows with no key are in no group.
\<close>

definition group_keys :: "string option list \<Rightarrow> string list" where
  "group_keys ks = sort (remdups [k. Some k \<leftarrow> ks])"

text \<open>Line 169: \<open>Turnover\<close> and \<open>Margin\<close> summed by customer.\<close>

definition cust_sales :: "TurnoverRecord list \<Rightarrow> (string \<times> amount \<times> amount) list" where
  "cust_sales df_turnover =
     map (\<lambda>k. let g = filter (\<lambda>r. Customer r = Some k) df_turnover
              in (k, sum_list (map Turnover g), sum_list (map Margin g)))
         (group_keys (map Customer df_turnover))"

text \<open>Line 170: \<open>Net amount\<close> summed by customer, the column renamed \<open>Portfolio\<close>.\<close>

definition cust_portfolio :: "PortfolioRecord list \<Rightarrow> (string \<times> amount) list" where
  "cust_portfolio df_portfolio =
     map (\<lambda>k. (k, sum_list (map Net_amount (filter (\<lambda>r. Customer_p r = Some k) df_portfolio))))
         (group_keys (map Customer_p df_portfolio))"

text \<open>
  \<open>pd.merge(left, right, on='Customer', how='outer')\<close>: the union of the keys of both
  frames, in ascending order; for each key the pairs of its left rows with its right
  rows, and a side that has no row for the key missing (NaN, here \<open>None\<close>).
\<close>

definition merge_outer ::
  "(string \<times> 'a) list \<Rightarrow> (string \<times> 'b) list \<Rightarrow> (string \<times> 'a option \<times> 'b option) list" where
  "merge_outer left right =
     concat (map (\<lambda>k.
         let ls = [a. (k', a) \<leftarrow> left, k' = k];
             rs = [b. (k', b) \<leftarrow> right, k' = k]
         in if rs = [] then map (\<lambda>a. (k, Some a, None)) ls
            else if ls = [] then map (\<lambda>b. (k, None, Some b)) rs
            else [(k, Some a, Some b). a \<leftarrow> ls, b \<leftarrow> rs])
       (sort (remdups (map fst left @ map fst right))))"

text \<open>\<open>.fillna(0)\<close> on a merged row, and line 173: \<open>Totale = Turnover + Portfolio\<close>.\<close>

definition fillna_totale ::
  "string \<times> (amount \<times> amount) option \<times> amount option \<Rightarrow> CustomerRollup" where
  "fillna_totale row =
     (case row of (k, s, p) \<Rightarrow>
        (let t = (case s of None \<Rightarrow> 0 | Some (t, m) \<Rightarrow> t);
             m = (case s of None \<Rightarrow> 0 | Some (t, m) \<Rightarrow> m);
             pf = (case p of None \<Rightarrow> 0 | Some v \<Rightarrow> v)
         in \<lparr> Customer_m = k, Turnover_m = t, Margin_m = m, Portfolio = pf,
              Totale = t + pf \<rparr>))"

text \<open>
  Lines 169--173: the merged table, when \<open>pd.merge\<close> accepts the two grouped frames
  (see \<open>merge_dtype_clash\<close> below).
\<close>

definition merged :: "TurnoverRecord list \<Rightarrow> PortfolioRecord list \<Rightarrow> CustomerRollup list" where
  "merged df_turnover df_portfolio =
     map fillna_totale (merge_outer (cust_sales df_turnover) (cust_portfolio df_portfolio))"

text \<open>
  Line 174: \<open>merged.sort_values('Totale', ascending=False).head(10)\<close>. For one sort
  column and a descending order pandas (\<open>nargsort\<close>) reverses the column, asks numpy
  for the indices that sort it in ascending order, takes the row numbers at these
  indices from the reversed row numbers, and reverses the result. The sort is called
  with the default \<open>kind='quicksort'\<close>, which pandas documents as not stable, and which
  kernel numpy runs for it depends on the processor: numpy's \<open>argsort\<close> is a parameter.
\<close>

definition nargsort_desc :: "(amount list \<Rightarrow> nat list) \<Rightarrow> amount list \<Rightarrow> nat list" where
  "nargsort_desc argsort items =
     rev (map (\<lambda>i. rev [0..<length items] ! i) (argsort (rev items)))"

definition sort_values_desc ::
  "(amount list \<Rightarrow> nat list) \<Rightarrow> CustomerRollup list \<Rightarrow> CustomerRollup list" where
  "sort_values_desc argsort df = map (\<lambda>i. df ! i) (nargsort_desc argsort (map Totale df))"

definition top_10 ::
  "(amount list \<Rightarrow> nat list) \<Rightarrow> CustomerRollup list \<Rightarrow> CustomerRollup list" where
  "top_10 argsort merged_df = take 10 (sort_values_desc argsort merged_df)"

text \<open>
  What \<open>argsort\<close> guarantees on an array, whatever its kind: the indices of the array,
  each once, in an order in which the items ascend.
\<close>

definition argsort_ok :: "(amount list \<Rightarrow> nat list) \<Rightarrow> amount list \<Rightarrow> bool" where
  "argsort_ok argsort xs \<longleftrightarrow>
     mset (argsort xs) = mset [0..<length xs] \<and> sorted (map (\<lambda>i. xs ! i) (argsort xs))"

text \<open>
  \<open>pd.merge\<close> refuses key columns of unlike dtypes when both frames are empty. The key
  column of a grouped frame with no group is \<open>object\<close> for a sheet with no row and
  \<open>float64\<close> for a sheet whose rows all have a blank \<open>Customer\<close>: line 172 raises
  \<open>ValueError\<close> when one sheet is of the first kind and the other of the second.
\<close>

definition merge_dtype_clash :: "TurnoverRecord list \<Rightarrow> PortfolioRecord list \<Rightarrow> bool" where
  "merge_dtype_clash df_turnover df_portfolio \<longleftrightarrow>
     group_keys (map Customer df_turnover) = [] \<and>
     group_keys (map Customer_p df_portfolio) = [] \<and>
     (df_turnover = []) \<noteq> (df_portfolio = [])"

text \<open>
  Lines 165--174: nothing when \<open>df_turnover\<close> is \<open>None\<close>; otherwise the merged table
  and its top ten. \<open>groupby('Customer')\<close> and the selection of the summed columns raise
  \<open>KeyError\<close> for a column the sheet lacks, and \<open>df_portfolio.groupby\<close> on \<open>None\<close>
  raises \<open>AttributeError\<close>.
\<close>

definition customer_rollup ::
  "(amount list \<Rightarrow> nat list) \<Rightarrow>
   TurnoverRecord dataframe option \<Rightarrow> PortfolioRecord dataframe option \<Rightarrow>
   py_error + (CustomerRollup list \<times> CustomerRollup list) option" where
  "customer_rollup argsort df_turnover df_portfolio =
     (case df_turnover of
        None \<Rightarrow> Inr None
      | Some t \<Rightarrow>
          if \<not> set [''Customer'', ''Turnover'', ''Margin''] \<subseteq> set (columns t) then Inl KeyError
          else
            (case df_portfolio of
               None \<Rightarrow> Inl AttributeError
             | Some p \<Rightarrow>
                 if \<not> set [''Customer'', ''Net amount''] \<subseteq> set (columns p) then Inl KeyError
                 else if merge_dtype_clash (rows t) (rows p) then Inl ValueError
                 else Inr (Some (merged (rows t) (rows p),
                                 top_10 argsort (merged (rows t) (rows p))))))"

section \<open>The script\<close>

record dashboard =
  messages :: "ui_message list"
  kpi :: kpis
  delta_pct :: fvalue
  rollup :: "(CustomerRollup list \<times> CustomerRollup list) option"

text \<open>The warning of line 59 (its text without the leading warning sign).\<close>

definition demo_warning :: ui_message where
  "demo_warning =
     Warning ''In attesa di file. Carico dati di esempio per la visualizzazione.''"

text \<open>
  Line 158 calls \<open>px.donut\<close>. \<open>plotly.express\<close> has no function of that name (its
  ring charts are \<open>px.pie\<close> with a \<open>hole\<close>): looking the attribute up raises
  \<open>AttributeError\<close>.
\<close>

definition px_donut :: "py_error + unit" where
  "px_donut = Inl AttributeError"

text \<open>
  One run of the script on an optional uploaded file and the annual budget of the
  sidebar: \<open>Inl\<close> the exception that ends the run, \<open>Inr\<close> what a run that reaches the
  last line has computed.
\<close>

definition app ::
  "(amount list \<Rightarrow> nat list) \<Rightarrow>
   ('f \<Rightarrow> string + TurnoverRecord dataframe) \<Rightarrow>
   ('f \<Rightarrow> string + PortfolioRecord dataframe) \<Rightarrow>
   'f option \<Rightarrow> int \<Rightarrow> py_error + dashboard" where
  "app argsort read_turnover read_portfolio uploaded_file budget_annuale =
     (case load_data read_turnover read_portfolio uploaded_file of
        ((df_turnover, df_portfolio), msgs) \<Rightarrow>
          (case compute_kpis df_turnover df_portfolio budget_annuale of
             Inl e \<Rightarrow> Inl e
           | Inr k \<Rightarrow>
               (case forecast_vs_budget (total_forecast k) budget_annuale of
                  Inl e \<Rightarrow> Inl e
                | Inr d \<Rightarrow>
                    (case px_donut of
                       Inl e \<Rightarrow> Inl e
                     | Inr fig_pie \<Rightarrow>
                         (case customer_rollup argsort df_turnover df_portfolio of
                            Inl e \<Rightarrow> Inl e
                          | Inr r \<Rightarrow>
                              Inr \<lparr> messages =
                                      msgs @ (if df_turnover = None then [demo_warning]
                                              else []),
                                    kpi = k, delta_pct = d, rollup = r \<rparr>)))))"

section \<open>What the rollup holds for a customer\<close>

text \<open>The sums of a customer's rows, and the row and the keys they make up.\<close>

definition turnover_of :: "TurnoverRecord list \<Rightarrow> string \<Rightarrow> amount" where
  "turnover_of df k = sum_list (map Turnover (filter (\<lambda>r. Customer r = Some k) df))"

definition margin_of :: "TurnoverRecord list \<Rightarrow> string \<Rightarrow> amount" where
  "margin_of df k = sum_list (map Margin (filter (\<lambda>r. Customer r = Some k) df))"

definition portfolio_of :: "PortfolioRecord list \<Rightarrow> string \<Rightarrow> amount" where
  "portfolio_of df k = sum_list (map Net_amount (filter (\<lambda>r. Customer_p r = Some k) df))"

definition rollup_row ::
  "TurnoverRecord list \<Rightarrow> PortfolioRecord list \<Rightarrow> string \<Rightarrow> CustomerRollup" where
  "rollup_row dt dp k =
     \<lparr> Customer_m = k, Turnover_m = turnover_of dt k, Margin_m = margin_of dt k,
       Portfolio = portfolio_of dp k, Totale = turnover_of dt k + portfolio_of dp k \<rparr>"

definition rollup_keys :: "TurnoverRecord list \<Rightarrow> PortfolioRecord list \<Rightarrow> string list" where
  "rollup_keys dt dp =
     sort (remdups (group_keys (map Customer dt) @ group_keys (map Customer_p dp)))"

text \<open>The header has the columns that lines 70 and 71 read.\<close>

definition kpi_columns ::
  "TurnoverRecord dataframe option \<Rightarrow> PortfolioRecord dataframe option \<Rightarrow> bool" where
  "kpi_columns df_turnover df_portfolio =
     (case df_turnover of
        None \<Rightarrow> True
      | Some t \<Rightarrow>
          ''Turnover'' \<in> set (columns t) \<and>
          (case df_portfolio of None \<Rightarrow> True | Some p \<Rightarrow> ''Net amount'' \<in> set (columns p)))"

section \<open>Orders of the rollup\<close>

text \<open>
  The order the specification words for the rollup: descending by \<open>Totale\<close>, rows of
  equal \<open>Totale\<close> in the order they have in the merged table.
\<close>

definition stable_desc :: "CustomerRollup list \<Rightarrow> CustomerRollup list" where
  "stable_desc df = sort_key (\<lambda>r. - Totale r) df"

text \<open>
  A stable \<open>argsort\<close>: the indices sorted by insertion, an index never passing one
  of an equal item.
\<close>

definition argsort_insertion :: "amount list \<Rightarrow> nat list" where
  "argsort_insertion xs = sort_key (\<lambda>i. xs ! i) [0..<length xs]"

text \<open>
  The kernel numpy's quicksort \<open>argsort\<close> runs for 64-bit items on a processor with
  AVX-512, on an array of at most eight items, transcribed from the x86-simd-sort
  library numpy builds on (\<open>argsort_8_64bit\<close>, \<open>sort_zmm_64bit\<close>, \<open>cmp_merge\<close>). The items
  and their indices are loaded into the eight lanes of two registers, the free lanes
  holding the largest value (\<open>None\<close> here) and the index \<open>0\<close>. A bitonic network of six
  stages sorts the lanes: in a stage every lane is compared with a partner lane and
  takes the smaller or the larger of the two keys, as the mask of the stage says; it
  keeps its index when the key it takes equals its own, and takes the partner's index
  otherwise.
\<close>

type_synonym lane = "amount option \<times> nat"

fun key_less :: "amount option \<Rightarrow> amount option \<Rightarrow> bool" where
  "key_less (Some a) (Some b) = (a < b)"
| "key_less (Some a) None = True"
| "key_less None b = False"

text \<open>A lane after a stage, from the lane itself and its partner.\<close>

definition cmp_merge :: "bool \<Rightarrow> lane \<Rightarrow> lane \<Rightarrow> lane" where
  "cmp_merge take_max own other =
     (let lo = (if key_less (fst other) (fst own) then fst other else fst own);
          hi = (if key_less (fst own) (fst other) then fst other else fst own);
          k = (if take_max then hi else lo)
      in (k, if k = fst own then snd own else snd other))"

definition stage :: "(nat \<Rightarrow> nat) \<Rightarrow> (nat \<Rightarrow> bool) \<Rightarrow> lane list \<Rightarrow> lane list" where
  "stage partner take_max lanes =
     map (\<lambda>i. cmp_merge (take_max i) (lanes ! i) (lanes ! partner i)) [0..<8]"

text \<open>
  The six stages, first to last: adjacent lanes (mask \<open>0xAA\<close>, the odd lanes take the
  larger key), \<open>NETWORK_64BIT_1\<close> (each half reversed, mask \<open>0xCC\<close>), adjacent lanes,
  \<open>NETWORK_64BIT_2\<close> (all lanes reversed, mask \<open>0xF0\<close>), \<open>NETWORK_64BIT_3\<close> (lanes two
  apart, mask \<open>0xCC\<close>), adjacent lanes.
\<close>

definition sort_zmm_64bit :: "lane list \<Rightarrow> lane list" where
  "sort_zmm_64bit lanes =
     (let swap1 = (\<lambda>i. if even i then i + 1 else i - 1);
          swap2 = (\<lambda>i. if even (i div 2) then i + 2 else i - 2);
          rev4 = (\<lambda>i. 4 * (i div 4) + (3 - i mod 4));
          rev8 = (\<lambda>i. 7 - i);
          m_aa = odd;
          m_cc = (\<lambda>i. odd (i div 2));
          m_f0 = (\<lambda>i. 4 \<le> i)
      in stage swap1 m_aa (stage swap2 m_cc (stage rev8 m_f0
           (stage swap1 m_aa (stage rev4 m_cc (stage swap1 m_aa lanes))))))"

definition argsort_8_64bit :: "amount list \<Rightarrow> nat list" where
  "argsort_8_64bit xs =
     take (length xs)
       (map snd (sort_zmm_64bit
          (map (\<lambda>i. if i < length xs then (Some (xs ! i), i) else (None, 0)) [0..<8])))"

text \<open>
  Longer arrays go through further merging and partitioning steps, which are not
  modelled: \<open>argsort_long\<close> stands for them.
\<close>

definition argsort_avx512 :: "(amount list \<Rightarrow> nat list) \<Rightarrow> amount list \<Rightarrow> nat list" where
  "argsort_avx512 argsort_long xs =
     (if length xs \<le> 8 then argsort_8_64bit xs else argsort_long xs)"

section \<open>Example inputs\<close>

text \<open>The example of the specification's section 8.\<close>

definition example_turnover :: "TurnoverRecord list" where
  "example_turnover =
     [\<lparr>Customer = Some ''A'', Turnover = 100, Margin = 10\<rparr>,
      \<lparr>Customer = Some ''B'', Turnover = 200, Margin = 20\<rparr>]"

definition example_portfolio :: "PortfolioRecord list" where
  "example_portfolio =
     [\<lparr>Customer_p = Some ''A'', Net_amount = 50\<rparr>,
      \<lparr>Customer_p = Some ''C'', Net_amount = 30\<rparr>]"

definition example_df_turnover :: "TurnoverRecord dataframe" where
  "example_df_turnover =
     \<lparr>columns = [''Customer'', ''Turnover'', ''Margin''], rows = example_turnover\<rparr>"

definition example_df_portfolio :: "PortfolioRecord dataframe" where
  "example_df_portfolio =
     \<lparr>columns = [''Customer'', ''Net amount''], rows = example_portfolio\<rparr>"

text \<open>
  The same workbook with the turnover column under another name, and a workbook whose
  second sheet is missing.
\<close>

definition renamed_column :: "TurnoverRecord dataframe" where
  "renamed_column =
     \<lparr>columns = [''Customer'', ''Fatturato'', ''Margin''], rows = example_turnover\<rparr>"


text \<open>
  Seven customers, the first two with the same \<open>Totale\<close>, and thirteen customers with
  thirteen different \<open>Totale\<close>.
\<close>

definition seven_turnover :: "TurnoverRecord list" where
  "seven_turnover =
     [\<lparr>Customer = Some ''A'', Turnover = 80, Margin = 8\<rparr>,
      \<lparr>Customer = Some ''B'', Turnover = 50, Margin = 5\<rparr>,
      \<lparr>Customer = Some ''C'', Turnover = 200, Margin = 20\<rparr>,
      \<lparr>Customer = Some ''D'', Turnover = 300, Margin = 30\<rparr>,
      \<lparr>Customer = Some ''E'', Turnover = 400, Margin = 40\<rparr>,
      \<lparr>Customer = Some ''F'', Turnover = 500, Margin = 50\<rparr>,
      \<lparr>Customer = Some ''G'', Turnover = 600, Margin = 60\<rparr>]"

definition seven_portfolio :: "PortfolioRecord list" where
  "seven_portfolio =
     [\<lparr>Customer_p = Some ''A'', Net_amount = 40\<rparr>,
      \<lparr>Customer_p = Some ''B'', Net_amount = 70\<rparr>,
      \<lparr>Customer_p = Some ''C'', Net_amount = 10\<rparr>,
      \<lparr>Customer_p = Some ''D'', Net_amount = 10\<rparr>,
      \<lparr>Customer_p = Some ''E'', Net_amount = 10\<rparr>,
      \<lparr>Customer_p = Some ''F'', Net_amount = 10\<rparr>,
      \<lparr>Customer_p = Some ''G'', Net_amount = 10\<rparr>]"

definition twelve_turnover :: "TurnoverRecord list" where
  "twelve_turnover =
     map (\<lambda>(c, t). \<lparr>Customer = Some c, Turnover = t, Margin = 0\<rparr>)
       [(''C01'', 70), (''C02'', 120), (''C03'', 10), (''C04'', 90), (''C05'', 30), (''C06'', 110),
        (''C07'', 50), (''C08'', 20), (''C09'', 100), (''C10'', 60), (''C11'', 80), (''C12'', 40)]"

definition twelve_portfolio :: "PortfolioRecord list" where
  "twelve_portfolio =
     [\<lparr>Customer_p = Some ''C03'', Net_amount = 5\<rparr>,
      \<lparr>Customer_p = Some ''C13'', Net_amount = 25\<rparr>]"

section \<open>Lemmas\<close>

lemma val_add_scalar: "val (add_scalar a b) = val a + val b"
  by (cases a; cases b) simp_all

lemma set_dropna: "set [k. Some k \<leftarrow> ks] = {k. Some k \<in> set ks}"
proof (rule set_eqI)
  fix k
  show "k \<in> set [k. Some k \<leftarrow> ks] \<longleftrightarrow> k \<in> {k. Some k \<in> set ks}"
    by (induction ks) (auto split: option.splits)
qed

lemma set_group_keys: "set (group_keys ks) = {k. Some k \<in> set ks}"
  by (simp only: group_keys_def set_sort set_remdups set_dropna)

lemma distinct_group_keys: "distinct (group_keys ks)"
  by (simp add: group_keys_def)

lemma sorted_group_keys: "sorted (group_keys ks)"
  by (simp add: group_keys_def)

lemma select_key_map:
  "distinct ks \<Longrightarrow>
   [a. (k', a) \<leftarrow> map (\<lambda>k. (k, g k)) ks, k' = k] = (if k \<in> set ks then [g k] else [])"
  by (induction ks) auto

lemma no_rows_turnover:
  "k \<notin> set (group_keys (map Customer dt)) \<Longrightarrow> filter (\<lambda>r. Customer r = Some k) dt = []"
  by (force simp: set_group_keys filter_empty_conv)

lemma no_rows_portfolio:
  "k \<notin> set (group_keys (map Customer_p dp)) \<Longrightarrow> filter (\<lambda>r. Customer_p r = Some k) dp = []"
  by (force simp: set_group_keys filter_empty_conv)

lemma map_fst_cust_sales: "map fst (cust_sales dt) = group_keys (map Customer dt)"
  by (simp add: cust_sales_def Let_def comp_def)

lemma map_fst_cust_portfolio: "map fst (cust_portfolio dp) = group_keys (map Customer_p dp)"
  by (simp add: cust_portfolio_def comp_def)

text \<open>Each key of the join yields exactly one row, zero-filled where a side is missing.\<close>

lemma merged_key:
  assumes "k \<in> set (rollup_keys dt dp)"
  shows "map fillna_totale
     (let ls = [a. (k', a) \<leftarrow> cust_sales dt, k' = k];
          rs = [b. (k', b) \<leftarrow> cust_portfolio dp, k' = k]
      in if rs = [] then map (\<lambda>a. (k, Some a, None)) ls
         else if ls = [] then map (\<lambda>b. (k, None, Some b)) rs
         else [(k, Some a, Some b). a \<leftarrow> ls, b \<leftarrow> rs]) = [rollup_row dt dp k]"
proof -
  let ?kt = "group_keys (map Customer dt)" and ?kp = "group_keys (map Customer_p dp)"
  have ls: "[a. (k', a) \<leftarrow> cust_sales dt, k' = k] =
      (if k \<in> set ?kt then [(turnover_of dt k, margin_of dt k)] else [])"
    unfolding cust_sales_def Let_def turnover_of_def margin_of_def
    by (rule select_key_map) (rule distinct_group_keys)
  have rs: "[b. (k', b) \<leftarrow> cust_portfolio dp, k' = k] =
      (if k \<in> set ?kp then [portfolio_of dp k] else [])"
    unfolding cust_portfolio_def portfolio_of_def
    by (rule select_key_map) (rule distinct_group_keys)
  from assms have mem: "k \<in> set ?kt \<or> k \<in> set ?kp"
    by (simp add: rollup_keys_def)
  have t0: "k \<notin> set ?kt \<Longrightarrow> turnover_of dt k = 0 \<and> margin_of dt k = 0"
    by (simp add: turnover_of_def margin_of_def no_rows_turnover)
  have p0: "k \<notin> set ?kp \<Longrightarrow> portfolio_of dp k = 0"
    by (simp add: portfolio_of_def no_rows_portfolio)
  show ?thesis
    using mem t0 p0 unfolding ls rs Let_def
    by (auto simp: fillna_totale_def rollup_row_def Let_def)
qed

lemma merged_eq: "merged dt dp = map (rollup_row dt dp) (rollup_keys dt dp)"
proof -
  have keys: "sort (remdups (map fst (cust_sales dt) @ map fst (cust_portfolio dp))) =
      rollup_keys dt dp"
    by (simp add: rollup_keys_def map_fst_cust_sales map_fst_cust_portfolio)
  have "merged dt dp = concat (map (\<lambda>k. [rollup_row dt dp k]) (rollup_keys dt dp))"
    unfolding merged_def merge_outer_def keys map_concat map_map comp_def
    by (rule arg_cong [where f = concat], rule map_cong [OF refl]) (rule merged_key)
  then show ?thesis by simp
qed

lemma set_rollup_keys:
  "set (rollup_keys dt dp) =
     {k. Some k \<in> Customer ` set dt \<or> Some k \<in> Customer_p ` set dp}"
  by (auto simp: rollup_keys_def set_group_keys)

lemma distinct_rollup_keys: "distinct (rollup_keys dt dp)"
  by (simp add: rollup_keys_def)

lemma sorted_rollup_keys: "sorted (rollup_keys dt dp)"
  by (simp add: rollup_keys_def)

lemma filter_eq_distinct:
  "distinct ks \<Longrightarrow> filter (\<lambda>x. x = k) ks = (if k \<in> set ks then [k] else [])"
  by (induction ks) auto

lemma filter_key_merged:
  "filter (\<lambda>r. Customer_m r = k) (merged dt dp) =
     (if k \<in> set (rollup_keys dt dp) then [rollup_row dt dp k] else [])"
proof -
  have "filter (\<lambda>r. Customer_m r = k) (merged dt dp) =
        map (rollup_row dt dp) (filter (\<lambda>x. x = k) (rollup_keys dt dp))"
    by (simp add: merged_eq filter_map comp_def rollup_row_def)
  then show ?thesis
    by (simp add: filter_eq_distinct [OF distinct_rollup_keys])
qed

text \<open>The customers of the merged table are the keys of the join, each once.\<close>

lemma customers_merged: "map Customer_m (merged dt dp) = rollup_keys dt dp"
  by (simp add: merged_eq comp_def rollup_row_def)

text \<open>
  The descending sort of pandas returns the rows of the frame, in non-increasing order
  of \<open>Totale\<close>, whenever numpy's \<open>argsort\<close> does its part on the reversed column.
\<close>

lemma mset_indices:
  assumes "mset a = mset [0..<n]"
  shows "mset (map (\<lambda>i. xs ! i) a) = mset (map (\<lambda>i. xs ! i) [0..<n])"
  using assms by (metis mset_map)

lemma nargsort_desc_perm:
  assumes "argsort_ok argsort (rev items)"
  shows "mset (nargsort_desc argsort items) = mset [0..<length items]"
proof -
  let ?n = "length items"
  from assms have a: "mset (argsort (rev items)) = mset [0..<?n]"
    by (simp add: argsort_ok_def)
  have "mset (nargsort_desc argsort items) =
        mset (map (\<lambda>i. rev [0..<?n] ! i) (argsort (rev items)))"
    by (simp add: nargsort_desc_def)
  also have "\<dots> = mset (map (\<lambda>i. rev [0..<?n] ! i) [0..<length (rev [0..<?n])])"
    using mset_indices [OF a] by simp
  also have "\<dots> = mset (rev [0..<?n])"
    by (simp only: map_nth)
  finally show ?thesis by simp
qed

lemma sort_values_desc_perm:
  assumes "argsort_ok argsort (rev (map Totale df))"
  shows "mset (sort_values_desc argsort df) = mset df"
proof -
  have "mset (nargsort_desc argsort (map Totale df)) = mset [0..<length df]"
    using nargsort_desc_perm [OF assms] by simp
  then have "mset (sort_values_desc argsort df) = mset (map (\<lambda>i. df ! i) [0..<length df])"
    unfolding sort_values_desc_def by (rule mset_indices)
  then show ?thesis by (simp only: map_nth)
qed

lemma sort_values_desc_Totale:
  assumes "argsort_ok argsort (rev (map Totale df))"
  shows "map Totale (sort_values_desc argsort df) =
         rev (map (\<lambda>i. rev (map Totale df) ! i) (argsort (rev (map Totale df))))"
proof -
  let ?items = "map Totale df" and ?n = "length df"
  let ?a = "argsort (rev ?items)"
  from assms have "mset ?a = mset [0..<?n]"
    by (simp add: argsort_ok_def)
  then have "set ?a = set [0..<?n]"
    by (rule mset_eq_setD)
  then have bound: "\<And>i. i \<in> set ?a \<Longrightarrow> i < ?n"
    by simp
  have "map Totale (sort_values_desc argsort df) =
        rev (map (\<lambda>i. Totale (df ! (rev [0..<?n] ! i))) ?a)"
    by (simp add: sort_values_desc_def nargsort_desc_def rev_map comp_def)
  also have "map (\<lambda>i. Totale (df ! (rev [0..<?n] ! i))) ?a = map (\<lambda>i. rev ?items ! i) ?a"
  proof (rule map_cong [OF refl])
    fix i assume "i \<in> set ?a"
    then have i: "i < ?n" by (rule bound)
    then show "Totale (df ! (rev [0..<?n] ! i)) = rev ?items ! i"
      by (simp add: rev_nth)
  qed
  finally show ?thesis .
qed

lemma sort_values_desc_sorted:
  assumes "argsort_ok argsort (rev (map Totale df))"
  shows "sorted_wrt (\<lambda>a b. Totale b \<le> Totale a) (sort_values_desc argsort df)"
proof -
  from assms have asc: "sorted (map (\<lambda>i. rev (map Totale df) ! i) (argsort (rev (map Totale df))))"
    by (simp add: argsort_ok_def)
  have "sorted_wrt (\<lambda>x y. y \<le> x) (map Totale (sort_values_desc argsort df))"
    unfolding sort_values_desc_Totale [OF assms] sorted_wrt_rev using asc by simp
  then show ?thesis
    by (simp add: sorted_wrt_map)
qed

text \<open>Without ties there is one non-increasing order of the rows.\<close>

lemma sorted_desc_unique:
  assumes perm: "mset s = mset df"
    and srt: "sorted_wrt (\<lambda>a b. Totale b \<le> Totale a) s"
    and dist: "distinct (map Totale df)"
  shows "s = stable_desc df"
proof -
  let ?g = "\<lambda>r. - Totale r"
  have perm': "mset (stable_desc df) = mset df"
    by (simp add: stable_desc_def)
  have dg: "distinct (map ?g df)"
    using dist by (simp add: distinct_map inj_on_def)
  have d1: "distinct (map ?g s)"
    using dg perm by (metis mset_eq_imp_distinct_iff mset_map)
  have d2: "distinct (map ?g (stable_desc df))"
    using dg perm' by (metis mset_eq_imp_distinct_iff mset_map)
  have s1: "sorted (map ?g s)"
    using srt by (simp add: sorted_wrt_map)
  have s2: "sorted (map ?g (stable_desc df))"
    by (simp add: stable_desc_def)
  have sets: "set s = set df" "set (stable_desc df) = set df"
    using perm perm' by (auto dest: mset_eq_setD)
  then have "set (map ?g s) = set (map ?g (stable_desc df))"
    by simp
  with s1 d1 s2 d2 have eq: "map ?g s = map ?g (stable_desc df)"
    by (rule sorted_distinct_set_unique)
  have "inj_on ?g (set s \<union> set (stable_desc df))"
    using dg sets by (simp add: distinct_map)
  with eq show ?thesis
    by (simp add: inj_on_map_eq_map)
qed

text \<open>The example of the specification, end to end.\<close>

lemma example_merged:
  "map (\<lambda>r. (Customer_m r, Totale r)) (merged example_turnover example_portfolio) =
     [(''A'', 150), (''B'', 200), (''C'', 30)]"
  by code_simp

lemma example_top_10:
  "map (\<lambda>r. (Customer_m r, Totale r))
     (top_10 argsort_insertion (merged example_turnover example_portfolio)) =
     [(''B'', 200), (''A'', 150), (''C'', 30)]"
  by code_simp

text \<open>
  Every run ends in an exception, at line 158 at the latest: \<open>KeyError\<close> when a sheet
  lacks a column that lines 70 and 71 read, \<open>ZeroDivisionError\<close> only for a zero
  budget, \<open>AttributeError\<close> otherwise. No run reaches the rollup of lines 165--174.
\<close>

lemma app_ends_in_exception:
  "\<exists>e. app argsort read_turnover read_portfolio uploaded_file budget_annuale = Inl e"
  by (simp add: app_def px_donut_def split: prod.split sum.split)

lemma app_exception:
  assumes "app argsort read_turnover read_portfolio uploaded_file budget_annuale = Inl e"
  shows "e = KeyError \<or> e = ZeroDivisionError \<and> budget_annuale = 0 \<or> e = AttributeError"
  using assms
  by (auto simp: app_def load_data_def compute_kpis_def kpi_vals_def kpi_calc_def getitem_def
      series_sum_def forecast_vs_budget_def px_donut_def Let_def
      split: option.splits sum.splits if_splits prod.splits)

section \<open>The claims\<close>

subsection \<open>C1: a zero annual budget\<close>

text \<open>
  Claim C1 says that with \<open>budget_annuale = 0\<close> the forecast-vs-budget percentage does
  not raise a division error and a sentinel is reported. The script has no guard: the
  sidebar input admits \<open>0\<close> (\<open>min_value=0\<close>), and with no file uploaded line 103
  divides the Python \<open>int\<close> \<open>1980000\<close> by the Python \<open>int\<close> \<open>0\<close>. The run ends in
  \<open>ZeroDivisionError\<close>, whatever the other inputs are.
\<close>

theorem zero_budget_raises:
  "app argsort read_turnover read_portfolio None 0 = Inl ZeroDivisionError"
  by (simp add: app_def load_data_def compute_kpis_def kpi_vals_def kpi_calc_def
      forecast_vs_budget_def Let_def)

subsection \<open>C6: forecast and monthly budget\<close>

text \<open>
  Claim C6: whatever \<open>load_data\<close> returned (real data or the demo fallback), when the
  sheets have the columns that lines 70 and 71 read the KPI computation returns,
  \<open>total_forecast\<close> is \<open>turnover_val + portfolio_val\<close> and \<open>budget_mensile\<close> is
  \<open>budget_annuale / 12\<close>. When a sheet lacks such a column the run ends in \<open>KeyError\<close>
  before lines 86 and 87.
\<close>

theorem total_forecast_and_budget_mensile:
  "(kpi_columns (fst (fst (load_data read_turnover read_portfolio uploaded_file)))
      (snd (fst (load_data read_turnover read_portfolio uploaded_file))) \<longrightarrow>
    (\<exists>k. compute_kpis (fst (fst (load_data read_turnover read_portfolio uploaded_file)))
          (snd (fst (load_data read_turnover read_portfolio uploaded_file))) budget_annuale = Inr k \<and>
       total_forecast k = add_scalar (turnover_val k) (portfolio_val k) \<and>
       val (total_forecast k) = val (turnover_val k) + val (portfolio_val k) \<and>
       budget_mensile k = of_int budget_annuale / 12)) \<and>
   (\<not> kpi_columns (fst (fst (load_data read_turnover read_portfolio uploaded_file)))
      (snd (fst (load_data read_turnover read_portfolio uploaded_file))) \<longrightarrow>
    compute_kpis (fst (fst (load_data read_turnover read_portfolio uploaded_file)))
      (snd (fst (load_data read_turnover read_portfolio uploaded_file))) budget_annuale =
      Inl KeyError)"
  by (simp add: load_data_def compute_kpis_def kpi_vals_def kpi_calc_def val_add_scalar
      kpi_columns_def getitem_def Let_def split: option.split sum.split)

theorem total_forecast_and_budget_mensile_witness:
  "kpi_columns
     (fst (fst (load_data (\<lambda>f. Inr example_df_turnover) (\<lambda>f. Inr example_df_portfolio) (Some ()))))
     (snd (fst (load_data (\<lambda>f. Inr example_df_turnover) (\<lambda>f. Inr example_df_portfolio) (Some ())))) \<and>
   (\<exists>k. compute_kpis (Some example_df_turnover) (Some example_df_portfolio) 2500000 = Inr k \<and>
        turnover_val k = NpScalar 300 \<and> portfolio_val k = NpScalar 80 \<and>
        total_forecast k = NpScalar 380 \<and> budget_mensile k = 625000 / 3) \<and>
   \<not> kpi_columns
     (fst (fst (load_data (\<lambda>f. Inr renamed_column) (\<lambda>f. Inr example_df_portfolio) (Some ()))))
     (snd (fst (load_data (\<lambda>f. Inr renamed_column) (\<lambda>f. Inr example_df_portfolio) (Some ())))) \<and>
   compute_kpis (Some renamed_column) (Some example_df_portfolio) 2500000 = Inl KeyError"
  using total_forecast_and_budget_mensile [of "\<lambda>f. Inr example_df_turnover"
      "\<lambda>f. Inr example_df_portfolio" "Some ()" 2500000]
    total_forecast_and_budget_mensile [of "\<lambda>f. Inr renamed_column"
      "\<lambda>f. Inr example_df_portfolio" "Some ()" 2500000]
  by (simp add: load_data_def compute_kpis_def kpi_vals_def kpi_calc_def kpi_columns_def
      getitem_def series_sum_def example_df_turnover_def example_df_portfolio_def
      renamed_column_def example_turnover_def example_portfolio_def Let_def)

subsection \<open>C7: a file that does not parse\<close>




subsection \<open>C8: no file supplied\<close>

text \<open>
  Claim C8: with no uploaded file \<open>load_data\<close> returns \<open>(None, None)\<close>, the KPI
  computation uses the demo scalars \<open>1530000\<close> and \<open>450000\<close>, and the rollup step
  produces nothing.
\<close>

theorem no_file_demo_fallback:
  "load_data read_turnover read_portfolio None = ((None, None), []) \<and>
   (\<exists>k. compute_kpis None None budget_annuale = Inr k \<and>
        turnover_val k = PyInt 1530000 \<and> portfolio_val k = PyInt 450000) \<and>
   customer_rollup argsort None None = Inr None"
  by (simp add: load_data_def compute_kpis_def kpi_vals_def kpi_calc_def
      customer_rollup_def Let_def)

subsection \<open>C10: both record sets or neither\<close>

text \<open>
  Claim C10: for every input, absent, parseable or malformed, \<open>load_data\<close> returns
  either \<open>(None, None)\<close> or two parsed record sets, never one without the other.
\<close>

theorem load_data_both_or_neither:
  "fst (load_data read_turnover read_portfolio uploaded_file) = (None, None) \<or>
   (\<exists>t p. fst (load_data read_turnover read_portfolio uploaded_file) = (Some t, Some p))"
  by (simp add: load_data_def split: option.split sum.split)

subsection \<open>C4: the outer join fills the missing side with zero\<close>

text \<open>
  Claim C4: a customer whose key is in only one of the two record sets has exactly one
  row in the merged table, with zero in the fields of the missing side (a customer only
  in \<open>Source_Portfolio\<close> has \<open>Turnover = 0\<close> and \<open>Margin = 0\<close>, a customer only in
  \<open>Source_Turnover\<close> has \<open>Portfolio = 0\<close>) and the sums of its rows in the other; and
  every row of the merged table has \<open>Totale = Turnover + Portfolio\<close>.
\<close>

theorem outer_join_zero_fill:
  "(Some c \<in> Customer_p ` set dp \<and> Some c \<notin> Customer ` set dt \<longrightarrow>
      filter (\<lambda>r. Customer_m r = c) (merged dt dp) =
        [\<lparr> Customer_m = c, Turnover_m = 0, Margin_m = 0,
           Portfolio = portfolio_of dp c, Totale = portfolio_of dp c \<rparr>]) \<and>
   (Some c \<in> Customer ` set dt \<and> Some c \<notin> Customer_p ` set dp \<longrightarrow>
      filter (\<lambda>r. Customer_m r = c) (merged dt dp) =
        [\<lparr> Customer_m = c, Turnover_m = turnover_of dt c, Margin_m = margin_of dt c,
           Portfolio = 0, Totale = turnover_of dt c \<rparr>]) \<and>
   (\<forall>r\<in>set (merged dt dp). Totale r = Turnover_m r + Portfolio r)"
proof (intro conjI impI)
  assume a: "Some c \<in> Customer_p ` set dp \<and> Some c \<notin> Customer ` set dt"
  then have "filter (\<lambda>r. Customer r = Some c) dt = []"
    by (force simp: filter_empty_conv)
  then have "turnover_of dt c = 0" "margin_of dt c = 0"
    by (simp_all add: turnover_of_def margin_of_def)
  with a show "filter (\<lambda>r. Customer_m r = c) (merged dt dp) =
        [\<lparr> Customer_m = c, Turnover_m = 0, Margin_m = 0,
           Portfolio = portfolio_of dp c, Totale = portfolio_of dp c \<rparr>]"
    by (simp add: filter_key_merged set_rollup_keys rollup_row_def)
next
  assume a: "Some c \<in> Customer ` set dt \<and> Some c \<notin> Customer_p ` set dp"
  then have "filter (\<lambda>r. Customer_p r = Some c) dp = []"
    by (force simp: filter_empty_conv)
  then have "portfolio_of dp c = 0"
    by (simp add: portfolio_of_def)
  with a show "filter (\<lambda>r. Customer_m r = c) (merged dt dp) =
        [\<lparr> Customer_m = c, Turnover_m = turnover_of dt c, Margin_m = margin_of dt c,
           Portfolio = 0, Totale = turnover_of dt c \<rparr>]"
    by (simp add: filter_key_merged set_rollup_keys rollup_row_def)
next
  show "\<forall>r\<in>set (merged dt dp). Totale r = Turnover_m r + Portfolio r"
    by (simp add: merged_eq rollup_row_def)
qed

theorem outer_join_zero_fill_witness:
  "Some ''C'' \<in> Customer_p ` set example_portfolio \<and>
   Some ''C'' \<notin> Customer ` set example_turnover \<and>
   filter (\<lambda>r. Customer_m r = ''C'') (merged example_turnover example_portfolio) =
     [\<lparr> Customer_m = ''C'', Turnover_m = 0, Margin_m = 0, Portfolio = 30, Totale = 30 \<rparr>] \<and>
   Some ''B'' \<in> Customer ` set example_turnover \<and>
   Some ''B'' \<notin> Customer_p ` set example_portfolio \<and>
   filter (\<lambda>r. Customer_m r = ''B'') (merged example_turnover example_portfolio) =
     [\<lparr> Customer_m = ''B'', Turnover_m = 200, Margin_m = 20, Portfolio = 0, Totale = 200 \<rparr>] \<and>
   map (\<lambda>r. Turnover_m r + Portfolio r) (merged example_turnover example_portfolio) =
     map Totale (merged example_turnover example_portfolio)"
  using outer_join_zero_fill [of "''C''" example_portfolio example_turnover]
    outer_join_zero_fill [of "''B''" example_portfolio example_turnover]
  by code_simp

subsection \<open>C3: the top ten\<close>

text \<open>
  Claim C3 says that the rollup has at most ten rows, is ordered non-increasing by
  \<open>Totale\<close>, and keeps rows of equal \<open>Totale\<close> in their order in the merged table.
  Line 174 does not ask for a stable sort. On seven customers of which the first two
  have the same \<open>Totale\<close>, with numpy's AVX-512 kernel, the two come out in the other
  order than in the merged table.
\<close>

theorem top_10_ties_counterexample:
  "argsort_ok (argsort_avx512 argsort_insertion)
     (rev (map Totale (merged seven_turnover seven_portfolio))) \<and>
   map (\<lambda>r. (Customer_m r, Totale r)) (merged seven_turnover seven_portfolio) =
     [(''A'', 120), (''B'', 120), (''C'', 210), (''D'', 310), (''E'', 410), (''F'', 510),
      (''G'', 610)] \<and>
   map Customer_m (top_10 (argsort_avx512 argsort_insertion)
       (merged seven_turnover seven_portfolio)) =
     [''G'', ''F'', ''E'', ''D'', ''C'', ''B'', ''A''] \<and>
   map Customer_m (take 10 (stable_desc (merged seven_turnover seven_portfolio))) =
     [''G'', ''F'', ''E'', ''D'', ''C'', ''A'', ''B'']"
  by code_simp

text \<open>
  Claim C3 as amended: whenever numpy's \<open>argsort\<close> returns the indices of the reversed
  \<open>Totale\<close> column in an ascending order of the items, the rollup has at most ten
  rows (ten, or one for each customer when there are fewer), no two for the same
  customer, all of them rows of the merged table, in non-increasing order of
  \<open>Totale\<close>, and no row left out has a larger \<open>Totale\<close> than a row kept. When no two
  customers have the same \<open>Totale\<close> the rollup is the first ten rows of the stable
  descending order; the order among rows of equal \<open>Totale\<close> is left to the kernel.
\<close>

theorem top_10_sorted_at_most_ten:
  assumes "argsort_ok argsort (rev (map Totale (merged dt dp)))"
  shows "length (top_10 argsort (merged dt dp)) \<le> 10 \<and>
         length (top_10 argsort (merged dt dp)) = min 10 (length (rollup_keys dt dp)) \<and>
         sorted_wrt (\<lambda>a b. Totale b \<le> Totale a) (top_10 argsort (merged dt dp)) \<and>
         mset (top_10 argsort (merged dt dp)) \<subseteq># mset (merged dt dp) \<and>
         distinct (map Customer_m (top_10 argsort (merged dt dp))) \<and>
         (\<forall>a\<in>set (top_10 argsort (merged dt dp)).
            \<forall>b\<in>#(mset (merged dt dp) - mset (top_10 argsort (merged dt dp))).
              Totale b \<le> Totale a) \<and>
         (distinct (map Totale (merged dt dp)) \<longrightarrow>
            top_10 argsort (merged dt dp) = take 10 (stable_desc (merged dt dp)))"
proof -
  let ?m = "merged dt dp" and ?s = "sort_values_desc argsort (merged dt dp)"
  have perm: "mset ?s = mset ?m"
    using assms by (rule sort_values_desc_perm)
  have srt: "sorted_wrt (\<lambda>a b. Totale b \<le> Totale a) ?s"
    using assms by (rule sort_values_desc_sorted)
  have len: "length ?s = length (rollup_keys dt dp)"
    using mset_eq_length [OF perm] by (simp add: merged_eq)
  have "distinct (map Customer_m ?m)"
    by (simp add: customers_merged distinct_rollup_keys)
  then have "distinct (map Customer_m ?s)"
    using perm by (metis mset_eq_imp_distinct_iff mset_map)
  then have dist: "distinct (map Customer_m (take 10 ?s))"
    by (simp add: take_map [symmetric] distinct_take)
  have split: "mset ?m = mset (take 10 ?s) + mset (drop 10 ?s)"
    by (metis perm append_take_drop_id mset_append)
  have rest: "mset ?m - mset (take 10 ?s) = mset (drop 10 ?s)"
    by (simp add: split)
  have "sorted_wrt (\<lambda>a b. Totale b \<le> Totale a) (take 10 ?s @ drop 10 ?s)"
    using srt by simp
  then have parts: "sorted_wrt (\<lambda>a b. Totale b \<le> Totale a) (take 10 ?s)"
    and top: "\<forall>a\<in>set (take 10 ?s). \<forall>b\<in>set (drop 10 ?s). Totale b \<le> Totale a"
    unfolding sorted_wrt_append by simp_all
  have det: "distinct (map Totale ?m) \<longrightarrow> take 10 ?s = take 10 (stable_desc ?m)"
    using sorted_desc_unique [OF perm srt] by simp
  show ?thesis
    unfolding top_10_def rest
    using parts top dist det by (simp add: len split min.commute)
qed

theorem top_10_sorted_at_most_ten_witness:
  "argsort_ok argsort_insertion (rev (map Totale (merged twelve_turnover twelve_portfolio))) \<and>
   distinct (map Totale (merged twelve_turnover twelve_portfolio)) \<and>
   length (merged twelve_turnover twelve_portfolio) = 13 \<and>
   map (\<lambda>r. (Customer_m r, Totale r))
     (top_10 argsort_insertion (merged twelve_turnover twelve_portfolio)) =
     [(''C02'', 120), (''C06'', 110), (''C09'', 100), (''C04'', 90), (''C11'', 80),
      (''C01'', 70), (''C10'', 60), (''C07'', 50), (''C12'', 40), (''C05'', 30)] \<and>
   top_10 argsort_insertion (merged twelve_turnover twelve_portfolio) =
     take 10 (stable_desc (merged twelve_turnover twelve_portfolio))"
  using top_10_sorted_at_most_ten [of argsort_insertion twelve_turnover twelve_portfolio]
  by code_simp

end
